theory Spec2Isabelle
  imports Complex_Main
begin

section \<open>Python values used by the cost monitor\<close>

text \<open>
  The development embeds \<^verbatim>\<open>litellm-helm/scripts/cost-monitor.py\<close>.
  Python \<^verbatim>\<open>float\<close> values are modelled as \<^typ>\<open>real\<close>: the rounding of IEEE
  doubles is not part of the model, but the one place where float arithmetic raises,
  the true division of an \<^verbatim>\<open>int\<close> whose quotient is no finite double, is. Python
  \<^verbatim>\<open>int\<close> is \<^typ>\<open>int\<close>. The names of models, users and requests and the keys of
  dictionaries, which are only compared, are of type \<^typ>\<open>string\<close>; the content of a
  request, whose characters are inspected, is the list of its code points. An
  exception is a value of \<open>py_error\<close>; a method that can raise returns \<open>Inl\<close> of it,
  together with the state the object has at that moment.
  What a method sends to \<^verbatim>\<open>logger\<close> is returned as a list of log records; the
  formatted message text is replaced by a constructor that carries the values the
  f-string interpolates.
\<close>

datatype py_error = KeyError string | OverflowError | UnicodeEncodeError

datatype log_level = INFO | WARNING

datatype log_event =
    Unknown_model string
  | Cost_entry_added string real string
  | Cleaned_up nat

type_synonym log_record = "log_level \<times> log_event"

subsection \<open>Naive datetimes\<close>

text \<open>
  A \<^verbatim>\<open>datetime\<close> is the record of its fields. \<open>toordinal\<close> is the proleptic
  Gregorian day number of the standard library (day 1 is 0001-01-01), \<open>total_us\<close> the
  number of microseconds since the start of day 0, which orders valid datetimes as
  Python's comparison does.
\<close>

record datetime =
  year :: int
  month :: int
  day :: int
  hour :: int
  minute :: int
  second :: int
  microsecond :: int

definition is_leap :: "int \<Rightarrow> bool" where
  "is_leap y = (y mod 4 = 0 \<and> (if y mod 100 = 0 then y mod 400 = 0 else True))"

definition days_before_year :: "int \<Rightarrow> int" where
  "days_before_year y = (let y1 = y - 1 in y1 * 365 + y1 div 4 - y1 div 100 + y1 div 400)"

definition days_before_month :: "int \<Rightarrow> int \<Rightarrow> int" where
  "days_before_month y m =
     [0, 31, 59, 90, 120, 151, 181, 212, 243, 273, 304, 334] ! nat (m - 1)
       + (if m > 2 \<and> is_leap y then 1 else 0)"

definition toordinal :: "datetime \<Rightarrow> int" where
  "toordinal dt = days_before_year (year dt) + days_before_month (year dt) (month dt) + day dt"

definition us_per_day :: int where
  "us_per_day = 86400000000"

definition total_us :: "datetime \<Rightarrow> int" where
  "total_us dt =
     (((toordinal dt * 24 + hour dt) * 60 + minute dt) * 60 + second dt) * 1000000
       + microsecond dt"

definition MAXORDINAL :: int where
  "MAXORDINAL = 3652059"

text \<open>
  \<^verbatim>\<open>timedelta(days=d)\<close> is the number of microseconds it spans; the constructor
  raises \<^verbatim>\<open>OverflowError\<close> when the magnitude of \<open>d\<close> exceeds 999999999.
  \<^verbatim>\<open>datetime - timedelta\<close> raises \<^verbatim>\<open>OverflowError\<close> when the day of the result
  is outside \<open>1..MAXORDINAL\<close> (years 1 to 9999). The difference is kept as its instant.
\<close>

definition timedelta_days :: "int \<Rightarrow> py_error + int" where
  "timedelta_days d = (if \<bar>d\<bar> > 999999999 then Inl OverflowError else Inr (d * us_per_day))"

definition datetime_sub :: "datetime \<Rightarrow> int \<Rightarrow> py_error + int" where
  "datetime_sub dt delta =
     (let t = total_us dt - delta; days = t div us_per_day
      in if 0 < days \<and> days \<le> MAXORDINAL then Inr t else Inl OverflowError)"

text \<open>
  The three \<^verbatim>\<open>strftime\<close> formats of the source: \<^verbatim>\<open>%Y-%m-%d\<close>, \<^verbatim>\<open>%Y-W%U\<close> and
  \<^verbatim>\<open>%Y-%m\<close>. \<^verbatim>\<open>%U\<close> is the week of the year with Sunday as the first day of the
  week: days before the first Sunday are in week 0.
\<close>

definition digit :: "int \<Rightarrow> char" where
  "digit n = ''0123456789'' ! nat (n mod 10)"

definition pad2 :: "int \<Rightarrow> string" where
  "pad2 n = [digit (n div 10), digit n]"

definition pad4 :: "int \<Rightarrow> string" where
  "pad4 n = [digit (n div 1000), digit (n div 100), digit (n div 10), digit n]"

definition week_U :: "datetime \<Rightarrow> int" where
  "week_U dt =
     (let yday = days_before_month (year dt) (month dt) + day dt - 1;
          wday = toordinal dt mod 7
      in (yday + 7 - wday) div 7)"

definition strftime_Ymd :: "datetime \<Rightarrow> string" where
  "strftime_Ymd dt = pad4 (year dt) @ ''-'' @ pad2 (month dt) @ ''-'' @ pad2 (day dt)"

definition strftime_YWU :: "datetime \<Rightarrow> string" where
  "strftime_YWU dt = pad4 (year dt) @ ''-W'' @ pad2 (week_U dt)"

definition strftime_Ym :: "datetime \<Rightarrow> string" where
  "strftime_Ym dt = pad4 (year dt) @ ''-'' @ pad2 (month dt)"

subsection \<open>Dictionaries\<close>

text \<open>
  A dictionary with string keys is a map. \<open>dict_getitem\<close> is \<^verbatim>\<open>d[k]\<close> on a plain
  \<^verbatim>\<open>dict\<close>, which raises \<^verbatim>\<open>KeyError\<close> on a missing key; \<open>dict_get\<close> is
  \<^verbatim>\<open>d.get(k, default)\<close>, which never inserts; \<open>defaultdict_iadd\<close> is
  \<^verbatim>\<open>d[k] += x\<close> on a \<^verbatim>\<open>defaultdict(float)\<close>, which starts a missing key at 0.
\<close>

definition dict_getitem :: "(string \<rightharpoonup> 'v) \<Rightarrow> string \<Rightarrow> py_error + 'v" where
  "dict_getitem d k = (case d k of None \<Rightarrow> Inl (KeyError k) | Some v \<Rightarrow> Inr v)"

definition dict_get :: "(string \<rightharpoonup> 'v) \<Rightarrow> string \<Rightarrow> 'v \<Rightarrow> 'v" where
  "dict_get d k dflt = (case d k of None \<Rightarrow> dflt | Some v \<Rightarrow> v)"

definition defaultdict_iadd :: "(string \<rightharpoonup> real) \<Rightarrow> string \<Rightarrow> real \<Rightarrow> (string \<rightharpoonup> real)" where
  "defaultdict_iadd d k x = d(k \<mapsto> (case d k of None \<Rightarrow> 0 | Some v \<Rightarrow> v) + x)"

section \<open>CostEntry and CostTracker\<close>

record CostEntry =
  timestamp :: datetime
  model :: string
  user_id :: string
  input_tokens :: int
  output_tokens :: int
  input_cost :: real
  output_cost :: real
  total_cost :: real
  request_id :: string

text \<open>
  The attributes of a \<^verbatim>\<open>CostTracker\<close> (the lock is left out: the model is
  sequential). \<open>daily_costs\<close>, \<open>weekly_costs\<close> and \<open>monthly_costs\<close> are
  \<^verbatim>\<open>defaultdict(float)\<close>, \<open>user_costs\<close> is a \<^verbatim>\<open>defaultdict\<close> of those.
  \<open>model_costs\<close> is bound twice by \<^verbatim>\<open>__init__\<close>: first to a \<^verbatim>\<open>defaultdict\<close> of
  \<^verbatim>\<open>defaultdict(float)\<close> (line 53), then to a plain \<^verbatim>\<open>dict\<close> literal that holds the
  price of each model under the keys \<^verbatim>\<open>'input'\<close> and \<^verbatim>\<open>'output'\<close> (line 66). The second
  binding is the one every method sees, so \<open>model_costs\<close> and its values are plain
  dictionaries.
\<close>

record CostTracker =
  costs :: "CostEntry list"
  daily_costs :: "string \<rightharpoonup> real"
  weekly_costs :: "string \<rightharpoonup> real"
  monthly_costs :: "string \<rightharpoonup> real"
  user_costs :: "string \<rightharpoonup> (string \<rightharpoonup> real)"
  model_costs :: "string \<rightharpoonup> (string \<rightharpoonup> real)"
  daily_budget :: real
  weekly_budget :: real
  monthly_budget :: real
  warning_threshold :: real
  critical_threshold :: real
  emergency_threshold :: real

text \<open>
  The environment variables \<^verbatim>\<open>__init__\<close> reads, after \<^verbatim>\<open>float(...)\<close>.
  \<open>default_env\<close> holds the defaults of the \<^verbatim>\<open>os.getenv\<close> calls. No value is
  checked: a ceiling or a threshold may be any number. The info record that
  \<^verbatim>\<open>__init__\<close> logs is left out.
\<close>

record cost_env =
  DAILY_BUDGET :: real
  WEEKLY_BUDGET :: real
  MONTHLY_BUDGET :: real
  COST_ALERT_WARNING :: real
  COST_ALERT_CRITICAL :: real
  COST_ALERT_EMERGENCY :: real
  VERTEX_GEMINI_PRO_INPUT_COST :: real
  VERTEX_GEMINI_PRO_OUTPUT_COST :: real
  VERTEX_GEMINI_FLASH_INPUT_COST :: real
  VERTEX_GEMINI_FLASH_OUTPUT_COST :: real

definition default_env :: cost_env where
  "default_env =
     \<lparr>DAILY_BUDGET = 100, WEEKLY_BUDGET = 500, MONTHLY_BUDGET = 2000,
      COST_ALERT_WARNING = 75, COST_ALERT_CRITICAL = 90, COST_ALERT_EMERGENCY = 95,
      VERTEX_GEMINI_PRO_INPUT_COST = 0.000125, VERTEX_GEMINI_PRO_OUTPUT_COST = 0.000375,
      VERTEX_GEMINI_FLASH_INPUT_COST = 0.000075, VERTEX_GEMINI_FLASH_OUTPUT_COST = 0.0003\<rparr>"

definition CostTracker_init :: "cost_env \<Rightarrow> CostTracker" where
  "CostTracker_init env =
     \<lparr>costs = [],
      daily_costs = Map.empty,
      weekly_costs = Map.empty,
      monthly_costs = Map.empty,
      user_costs = Map.empty,
      model_costs =
        [''vertex-gemini-pro'' \<mapsto>
           [''input'' \<mapsto> VERTEX_GEMINI_PRO_INPUT_COST env,
            ''output'' \<mapsto> VERTEX_GEMINI_PRO_OUTPUT_COST env],
         ''vertex-gemini-flash'' \<mapsto>
           [''input'' \<mapsto> VERTEX_GEMINI_FLASH_INPUT_COST env,
            ''output'' \<mapsto> VERTEX_GEMINI_FLASH_OUTPUT_COST env]],
      daily_budget = DAILY_BUDGET env,
      weekly_budget = WEEKLY_BUDGET env,
      monthly_budget = MONTHLY_BUDGET env,
      warning_threshold = COST_ALERT_WARNING env / 100,
      critical_threshold = COST_ALERT_CRITICAL env / 100,
      emergency_threshold = COST_ALERT_EMERGENCY env / 100\<rparr>"

subsection \<open>True division of integers\<close>

text \<open>
  \<^verbatim>\<open>n / 1000\<close> on an \<^verbatim>\<open>int\<close> is the double nearest to the quotient. When the
  quotient rounds to no finite double, that is when its magnitude is at least
  \<open>2 ^ 1024 - 2 ^ 970\<close> (half a unit in the last place above the largest double),
  the division raises \<^verbatim>\<open>OverflowError\<close>. The products and the sum that follow
  in the source never raise.
\<close>

definition float_limit :: real where
  "float_limit = 2 ^ 1024 - 2 ^ 970"

definition truediv_1000 :: "int \<Rightarrow> py_error + real" where
  "truediv_1000 n =
     (if float_limit \<le> \<bar>real_of_int n / 1000\<bar> then Inl OverflowError
      else Inr (real_of_int n / 1000))"

subsection \<open>calculate_cost\<close>

text \<open>
  The price pair of lines 81 to 87: the fallback pair and a warning for a model that is
  not a key of \<open>model_costs\<close>, the configured pair otherwise (a \<^verbatim>\<open>KeyError\<close> when the
  model's dictionary lacks \<^verbatim>\<open>'input'\<close> or \<^verbatim>\<open>'output'\<close>). Lines 89 to 91 then divide
  the input count, multiply, divide the output count, multiply, and add.
\<close>

definition cost_per_1k :: "CostTracker \<Rightarrow> string \<Rightarrow> (py_error + real \<times> real) \<times> log_record list" where
  "cost_per_1k self mdl =
     (case model_costs self mdl of
        None \<Rightarrow> (Inr (0.001, 0.002), [(WARNING, Unknown_model mdl)])
      | Some prices \<Rightarrow>
          (case dict_getitem prices ''input'' of
             Inl e \<Rightarrow> (Inl e, [])
           | Inr input_cost_per_1k \<Rightarrow>
               (case dict_getitem prices ''output'' of
                  Inl e \<Rightarrow> (Inl e, [])
                | Inr output_cost_per_1k \<Rightarrow> (Inr (input_cost_per_1k, output_cost_per_1k), []))))"

definition calculate_cost ::
  "CostTracker \<Rightarrow> string \<Rightarrow> int \<Rightarrow> int \<Rightarrow> (py_error + real \<times> real \<times> real) \<times> log_record list" where
  "calculate_cost self mdl in_tokens out_tokens =
     (case cost_per_1k self mdl of
        (Inl e, logs) \<Rightarrow> (Inl e, logs)
      | (Inr (input_cost_per_1k, output_cost_per_1k), logs) \<Rightarrow>
          (case truediv_1000 in_tokens of
             Inl e \<Rightarrow> (Inl e, logs)
           | Inr in_thousands \<Rightarrow>
               (case truediv_1000 out_tokens of
                  Inl e \<Rightarrow> (Inl e, logs)
                | Inr out_thousands \<Rightarrow>
                    (let in_cost = in_thousands * input_cost_per_1k;
                         out_cost = out_thousands * output_cost_per_1k;
                         tot_cost = in_cost + out_cost
                     in (Inr (in_cost, out_cost, tot_cost), logs)))))"

subsection \<open>add_cost_entry\<close>

text \<open>
  \<open>now\<close> is the value of \<^verbatim>\<open>datetime.utcnow()\<close> at line 100. The body of the
  \<^verbatim>\<open>with self.lock\<close> block runs statement by statement; an exception leaves the block
  with the assignments made so far in place. The last statement,
  \<^verbatim>\<open>self.model_costs[model][today] += total_cost\<close>, reads \<^verbatim>\<open>self.model_costs[model]\<close>
  and then its entry for \<open>today\<close>, both lookups of plain dictionaries.
\<close>

definition add_cost_entry ::
  "CostTracker \<Rightarrow> datetime \<Rightarrow> string \<Rightarrow> string \<Rightarrow> int \<Rightarrow> int \<Rightarrow> string
     \<Rightarrow> (py_error + CostEntry) \<times> CostTracker \<times> log_record list" where
  "add_cost_entry self now mdl uid in_tokens out_tokens rid =
     (case calculate_cost self mdl in_tokens out_tokens of
        (Inl e, logs) \<Rightarrow> (Inl e, self, logs)
      | (Inr (in_cost, out_cost, tot_cost), logs) \<Rightarrow>
          (let entry = \<lparr>timestamp = now, model = mdl, user_id = uid,
                         input_tokens = in_tokens, output_tokens = out_tokens,
                         input_cost = in_cost, output_cost = out_cost,
                         total_cost = tot_cost, request_id = rid\<rparr>;
               self1 = self\<lparr>costs := costs self @ [entry]\<rparr>;
               today = strftime_Ymd (timestamp entry);
               week = strftime_YWU (timestamp entry);
               month' = strftime_Ym (timestamp entry);
               self2 = self1\<lparr>daily_costs := defaultdict_iadd (daily_costs self1) today tot_cost\<rparr>;
               self3 = self2\<lparr>weekly_costs := defaultdict_iadd (weekly_costs self2) week tot_cost\<rparr>;
               self4 = self3\<lparr>monthly_costs := defaultdict_iadd (monthly_costs self3) month' tot_cost\<rparr>;
               user_dict = (case user_costs self4 uid of None \<Rightarrow> Map.empty | Some d \<Rightarrow> d);
               self5 = self4\<lparr>user_costs :=
                         (user_costs self4)(uid \<mapsto> defaultdict_iadd user_dict today tot_cost)\<rparr>
           in (case dict_getitem (model_costs self5) mdl of
                 Inl e \<Rightarrow> (Inl e, self5, logs)
               | Inr model_dict \<Rightarrow>
                   (case dict_getitem model_dict today of
                      Inl e \<Rightarrow> (Inl e, self5, logs)
                    | Inr spent \<Rightarrow>
                        (Inr entry,
                         self5\<lparr>model_costs :=
                                 (model_costs self5)(mdl \<mapsto> model_dict(today \<mapsto> spent + tot_cost))\<rparr>,
                         logs @ [(INFO, Cost_entry_added mdl tot_cost uid)])))))"

subsection \<open>check_budget_limits\<close>

text \<open>
  The method reads the clock three times (lines 131 to 133); \<open>t_day\<close>, \<open>t_week\<close> and
  \<open>t_month\<close> are the three readings. The result is the dictionary of nine flags, in
  insertion order, and the tracker as the reads leave it.
\<close>

definition check_budget_limits ::
  "CostTracker \<Rightarrow> datetime \<Rightarrow> datetime \<Rightarrow> datetime \<Rightarrow> (string \<times> bool) list \<times> CostTracker" where
  "check_budget_limits self t_day t_week t_month =
     (let today = strftime_Ymd t_day;
          week = strftime_YWU t_week;
          month' = strftime_Ym t_month;
          daily_spent = dict_get (daily_costs self) today 0;
          weekly_spent = dict_get (weekly_costs self) week 0;
          monthly_spent = dict_get (monthly_costs self) month' 0
      in ([(''daily_warning'', daily_spent \<ge> daily_budget self * warning_threshold self),
           (''daily_critical'', daily_spent \<ge> daily_budget self * critical_threshold self),
           (''daily_emergency'', daily_spent \<ge> daily_budget self * emergency_threshold self),
           (''weekly_warning'', weekly_spent \<ge> weekly_budget self * warning_threshold self),
           (''weekly_critical'', weekly_spent \<ge> weekly_budget self * critical_threshold self),
           (''weekly_emergency'', weekly_spent \<ge> weekly_budget self * emergency_threshold self),
           (''monthly_warning'', monthly_spent \<ge> monthly_budget self * warning_threshold self),
           (''monthly_critical'', monthly_spent \<ge> monthly_budget self * critical_threshold self),
           (''monthly_emergency'', monthly_spent \<ge> monthly_budget self * emergency_threshold self)],
          self))"

subsection \<open>cleanup_old_entries\<close>

text \<open>
  \<open>now\<close> is the clock reading of line 177. The method has no \<^verbatim>\<open>return\<close> statement:
  its value is \<^verbatim>\<open>None\<close>, here \<open>()\<close>; the number of removed entries goes to the log
  when it is positive.
\<close>

definition cleanup_old_entries ::
  "CostTracker \<Rightarrow> datetime \<Rightarrow> int \<Rightarrow> (py_error + unit) \<times> CostTracker \<times> log_record list" where
  "cleanup_old_entries self now retention_days =
     (case timedelta_days retention_days of
        Inl e \<Rightarrow> (Inl e, self, [])
      | Inr delta \<Rightarrow>
          (case datetime_sub now delta of
             Inl e \<Rightarrow> (Inl e, self, [])
           | Inr cutoff_date \<Rightarrow>
               (let original_count = length (costs self);
                    self1 = self\<lparr>costs := filter (\<lambda>entry. total_us (timestamp entry) > cutoff_date) (costs self)\<rparr>;
                    removed_count = original_count - length (costs self1)
                in (Inr (), self1,
                    if removed_count > 0 then [(INFO, Cleaned_up removed_count)] else []))))"

section \<open>ContentGuardrails\<close>

text \<open>
  The regular expressions of \<^verbatim>\<open>pii_patterns\<close> and \<^verbatim>\<open>secret_patterns\<close> (lines 204 to
  218) are named by a constructor each, in the order of the source. The matcher
  \<^verbatim>\<open>re.search\<close> of the standard library is a parameter \<open>re_search\<close> of the methods
  that call it, and so is \<^verbatim>\<open>str.lower\<close>, the case mapping of the Unicode database,
  as \<open>str_lower\<close>.
\<close>

datatype pattern =
    SSN_pattern
  | Credit_card_pattern
  | Email_pattern
  | Phone_pattern
  | OpenAI_key_pattern
  | Google_key_pattern
  | AWS_key_pattern
  | GitHub_token_pattern
  | Slack_token_pattern

text \<open>
  A violation is the message the source appends, with the interpolated values as
  arguments.
\<close>

datatype violation =
    Request_size_exceeds nat int
  | Input_tokens_exceed real int
  | PII_detected
  | Secret_detected
  | Harmful_content string
  | Budget_limit_exceeded

record ContentGuardrails =
  block_pii :: bool
  block_toxic :: bool
  block_hate :: bool
  block_violence :: bool
  block_sexual :: bool
  max_input_tokens :: int
  max_output_tokens :: int
  max_request_size :: int
  scan_for_secrets :: bool
  pii_patterns :: "pattern list"
  secret_patterns :: "pattern list"

text \<open>
  The environment variables \<^verbatim>\<open>ContentGuardrails.__init__\<close> reads: a flag is true when
  the variable, in lower case, is \<^verbatim>\<open>'true'\<close>; a ceiling is the variable after
  \<^verbatim>\<open>int(...)\<close>.
\<close>

record guard_env =
  BLOCK_PII :: bool
  BLOCK_TOXIC :: bool
  BLOCK_HATE :: bool
  BLOCK_VIOLENCE :: bool
  BLOCK_SEXUAL :: bool
  MAX_INPUT_TOKENS :: int
  MAX_OUTPUT_TOKENS :: int
  MAX_REQUEST_SIZE :: int
  SCAN_FOR_SECRETS :: bool

definition default_guard_env :: guard_env where
  "default_guard_env =
     \<lparr>BLOCK_PII = True, BLOCK_TOXIC = True, BLOCK_HATE = True, BLOCK_VIOLENCE = True,
      BLOCK_SEXUAL = True, MAX_INPUT_TOKENS = 8192, MAX_OUTPUT_TOKENS = 8192,
      MAX_REQUEST_SIZE = 1048576, SCAN_FOR_SECRETS = True\<rparr>"

definition ContentGuardrails_init :: "guard_env \<Rightarrow> ContentGuardrails" where
  "ContentGuardrails_init env =
     \<lparr>block_pii = BLOCK_PII env,
      block_toxic = BLOCK_TOXIC env,
      block_hate = BLOCK_HATE env,
      block_violence = BLOCK_VIOLENCE env,
      block_sexual = BLOCK_SEXUAL env,
      max_input_tokens = MAX_INPUT_TOKENS env,
      max_output_tokens = MAX_OUTPUT_TOKENS env,
      max_request_size = MAX_REQUEST_SIZE env,
      scan_for_secrets = SCAN_FOR_SECRETS env,
      pii_patterns = [SSN_pattern, Credit_card_pattern, Email_pattern, Phone_pattern],
      secret_patterns = [OpenAI_key_pattern, Google_key_pattern, AWS_key_pattern,
                         GitHub_token_pattern, Slack_token_pattern]\<rparr>"

subsection \<open>String methods\<close>

text \<open>
  A \<^verbatim>\<open>str\<close> whose characters matter is the list of its code points, numbers up to
  \<open>0x10FFFF\<close>; \<open>str_of\<close> gives the code points of a literal. \<open>encoded_len\<close> is
  \<^verbatim>\<open>len(s.encode('utf-8'))\<close>: one to four bytes per code point, and
  \<^verbatim>\<open>UnicodeEncodeError\<close> when the string holds a surrogate (\<open>0xD800\<close> to \<open>0xDFFF\<close>),
  which UTF-8 does not encode. \<open>isspace\<close> holds of the code points that
  \<^verbatim>\<open>str.split()\<close> treats as separators. \<open>split\<close> is \<^verbatim>\<open>s.split()\<close>: the maximal runs
  of characters that are not separators. \<open>str_contains s k\<close> is \<^verbatim>\<open>k in s\<close>.
\<close>

type_synonym pystr = "nat list"

definition str_of :: "string \<Rightarrow> pystr" where
  "str_of s = map of_char s"

definition is_surrogate :: "nat \<Rightarrow> bool" where
  "is_surrogate c = (0xD800 \<le> c \<and> c \<le> 0xDFFF)"

definition utf8_bytes :: "nat \<Rightarrow> nat" where
  "utf8_bytes c = (if c < 0x80 then 1 else if c < 0x800 then 2 else if c < 0x10000 then 3 else 4)"

definition encoded_len :: "pystr \<Rightarrow> py_error + nat" where
  "encoded_len s =
     (if list_ex is_surrogate s then Inl UnicodeEncodeError
      else Inr (sum_list (map utf8_bytes s)))"

definition isspace :: "nat \<Rightarrow> bool" where
  "isspace c =
     ((0x9 \<le> c \<and> c \<le> 0xD) \<or> (0x1C \<le> c \<and> c \<le> 0x20) \<or> c = 0x85 \<or> c = 0xA0
      \<or> c = 0x1680 \<or> (0x2000 \<le> c \<and> c \<le> 0x200A) \<or> c = 0x2028 \<or> c = 0x2029
      \<or> c = 0x202F \<or> c = 0x205F \<or> c = 0x3000)"

fun words_from :: "pystr \<Rightarrow> pystr \<Rightarrow> pystr list" where
  "words_from cur [] = (if cur = [] then [] else [cur])"
| "words_from cur (c # cs) =
     (if isspace c then (if cur = [] then words_from [] cs else cur # words_from [] cs)
      else words_from (cur @ [c]) cs)"

definition split :: "pystr \<Rightarrow> pystr list" where
  "split s = words_from [] s"

fun str_contains :: "pystr \<Rightarrow> pystr \<Rightarrow> bool" where
  "str_contains [] k = (k = [])"
| "str_contains (c # cs) k = (take (length k) (c # cs) = k \<or> str_contains cs k)"

subsection \<open>validate_input\<close>

text \<open>
  The checks of lines 222 to 258, in the order of the source; each appends at most one
  violation. The first statement encodes the content, so a content that UTF-8 cannot
  encode ends the call with \<^verbatim>\<open>UnicodeEncodeError\<close> before any check. The parameter
  \<^verbatim>\<open>content_type\<close> is not used by the source and is left out.
\<close>

definition toxic_keywords :: "string list" where
  "toxic_keywords = [''hate'', ''kill'', ''violence'', ''explicit'', ''toxic'']"

definition validate_input ::
  "ContentGuardrails \<Rightarrow> (pattern \<Rightarrow> pystr \<Rightarrow> bool) \<Rightarrow> (pystr \<Rightarrow> pystr) \<Rightarrow> pystr
     \<Rightarrow> py_error + bool \<times> violation list" where
  "validate_input self re_search str_lower content =
     (case encoded_len content of
        Inl e \<Rightarrow> Inl e
      | Inr size_in_bytes \<Rightarrow>
          (let violations0 = [];
               violations1 =
                 (if int size_in_bytes > max_request_size self
                  then violations0 @ [Request_size_exceeds size_in_bytes (max_request_size self)]
                  else violations0);
               estimated_tokens = real (length (split content)) * 1.3;
               violations2 =
                 (if estimated_tokens > real_of_int (max_input_tokens self)
                  then violations1 @ [Input_tokens_exceed estimated_tokens (max_input_tokens self)]
                  else violations1);
               violations3 =
                 (if block_pii self \<and> list_ex (\<lambda>p. re_search p content) (pii_patterns self)
                  then violations2 @ [PII_detected]
                  else violations2);
               violations4 =
                 (if scan_for_secrets self
                     \<and> list_ex (\<lambda>p. re_search p content) (secret_patterns self)
                  then violations3 @ [Secret_detected]
                  else violations3);
               violations5 =
                 (if block_toxic self \<or> block_hate self \<or> block_violence self \<or> block_sexual self
                  then (case List.find (\<lambda>keyword. str_contains (str_lower content) (str_of keyword))
                               toxic_keywords of
                          None \<Rightarrow> violations4
                        | Some keyword \<Rightarrow> violations4 @ [Harmful_content keyword])
                  else violations4)
           in Inr (violations5 = [], violations5)))"

section \<open>GuardrailsManager\<close>

record GuardrailsManager =
  cost_tracker :: CostTracker
  content_guardrails :: ContentGuardrails
  enabled :: bool

text \<open>
  The manager's attributes; \<open>guardrails_enabled\<close> is the environment variable
  \<^verbatim>\<open>GUARDRAILS_ENABLED\<close> compared with \<^verbatim>\<open>'true'\<close>. The cleanup thread that
  \<^verbatim>\<open>__init__\<close> starts is not part of the sequential model.
\<close>

definition GuardrailsManager_init :: "cost_env \<Rightarrow> guard_env \<Rightarrow> bool \<Rightarrow> GuardrailsManager" where
  "GuardrailsManager_init cenv genv guardrails_enabled =
     \<lparr>cost_tracker = CostTracker_init cenv,
      content_guardrails = ContentGuardrails_init genv,
      enabled = guardrails_enabled\<rparr>"

text \<open>
  \<open>truthy\<close> is the truth value Python gives the result of \<^verbatim>\<open>budget_status.get(key)\<close>:
  \<^verbatim>\<open>None\<close> for a missing key counts as false.
\<close>

definition truthy :: "bool option \<Rightarrow> bool" where
  "truthy r = (case r of None \<Rightarrow> False | Some b \<Rightarrow> b)"

text \<open>
  \<open>pre_request_check\<close> returns its pair, or the exception that \<open>validate_input\<close>
  raises, and the manager as the call leaves it. The arguments \<open>mdl\<close> and \<open>uid\<close> are
  not used by the source.
\<close>

definition pre_request_check ::
  "GuardrailsManager \<Rightarrow> datetime \<Rightarrow> datetime \<Rightarrow> datetime \<Rightarrow> (pattern \<Rightarrow> pystr \<Rightarrow> bool)
     \<Rightarrow> (pystr \<Rightarrow> pystr) \<Rightarrow> pystr \<Rightarrow> string \<Rightarrow> string
     \<Rightarrow> (py_error + bool \<times> violation list) \<times> GuardrailsManager" where
  "pre_request_check self t_day t_week t_month re_search str_lower content mdl uid =
     (if \<not> enabled self then (Inr (True, []), self)
      else
        (let violations0 = [];
             (budget_status, tracker1) = check_budget_limits (cost_tracker self) t_day t_week t_month;
             self1 = self\<lparr>cost_tracker := tracker1\<rparr>;
             violations1 =
               (if truthy (map_of budget_status ''daily_emergency'')
                   \<or> truthy (map_of budget_status ''monthly_emergency'')
                then violations0 @ [Budget_limit_exceeded]
                else violations0)
         in (case validate_input (content_guardrails self1) re_search str_lower content of
               Inl e \<Rightarrow> (Inl e, self1)
             | Inr (content_valid, content_violations) \<Rightarrow>
                 (let violations2 =
                        (if \<not> content_valid then violations1 @ content_violations
                         else violations1)
                  in (Inr (violations2 = [], violations2), self1)))))"

section \<open>Example values\<close>

text \<open>A clock reading used by the concrete evaluations below: 2024-01-15 12:30:00.\<close>

definition example_now :: datetime where
  "example_now =
     \<lparr>year = 2024, month = 1, day = 15, hour = 12, minute = 30, second = 0, microsecond = 0\<rparr>"

text \<open>
  A tracker with a daily ceiling of 10 that has spent 9.60 on 2024-01-15, a manager
  around it, a matcher that finds no pattern, the case mapping of the letters A to Z
  (what \<^verbatim>\<open>str.lower\<close> does on ASCII text), and three retained entries for the
  retention examples.
\<close>

definition example_spent_tracker :: CostTracker where
  "example_spent_tracker =
     (CostTracker_init (default_env\<lparr>DAILY_BUDGET := 10\<rparr>))\<lparr>daily_costs := [''2024-01-15'' \<mapsto> 9.6]\<rparr>"

definition example_manager :: GuardrailsManager where
  "example_manager =
     \<lparr>cost_tracker = example_spent_tracker,
      content_guardrails = ContentGuardrails_init default_guard_env,
      enabled = True\<rparr>"

definition no_match :: "pattern \<Rightarrow> pystr \<Rightarrow> bool" where
  "no_match p s = False"

definition ascii_lower :: "pystr \<Rightarrow> pystr" where
  "ascii_lower s = map (\<lambda>c. if 0x41 \<le> c \<and> c \<le> 0x5A then c + 0x20 else c) s"

definition midnight :: "int \<Rightarrow> int \<Rightarrow> int \<Rightarrow> datetime" where
  "midnight y m d = \<lparr>year = y, month = m, day = d, hour = 0, minute = 0, second = 0, microsecond = 0\<rparr>"

definition example_entry :: "datetime \<Rightarrow> CostEntry" where
  "example_entry t =
     \<lparr>timestamp = t, model = ''vertex-gemini-pro'', user_id = ''alice'', input_tokens = 1000,
      output_tokens = 2000, input_cost = 0.000125, output_cost = 0.00075, total_cost = 0.000875,
      request_id = ''req-1''\<rparr>"

definition example_retained :: CostTracker where
  "example_retained =
     example_spent_tracker
       \<lparr>costs := [example_entry (midnight 2023 12 1), example_entry (midnight 2024 1 1),
                  example_entry (midnight 2024 1 20)]\<rparr>"

section \<open>Properties\<close>

subsection \<open>The range of the true division\<close>

lemma float_limit_large: "2 ^ 1023 \<le> float_limit"
proof -
  have "(2::real) ^ 970 \<le> 2 ^ 1023" by (rule power_increasing) simp_all
  moreover have "(2::real) ^ 1024 = 2 * 2 ^ 1023" by simp
  ultimately show ?thesis by (simp add: float_limit_def)
qed

lemma truediv_1000_in_range:
  "\<bar>real_of_int n / 1000\<bar> < float_limit \<Longrightarrow> truediv_1000 n = Inr (real_of_int n / 1000)"
  by (simp add: truediv_1000_def)

lemma truediv_1000_small:
  assumes "\<bar>n\<bar> \<le> 1000000000"
  shows "truediv_1000 n = Inr (real_of_int n / 1000)"
proof -
  have "\<bar>real_of_int n / 1000\<bar> \<le> 1000000" using assms by simp
  moreover have "(1000000::real) < 2 ^ 20" by simp
  moreover have "(2::real) ^ 20 \<le> 2 ^ 1023" by (rule power_increasing) simp_all
  ultimately have "\<bar>real_of_int n / 1000\<bar> < float_limit"
    using float_limit_large by linarith
  then show ?thesis by (rule truediv_1000_in_range)
qed

lemma float_limit_below: "float_limit \<le> 10 ^ 309"
proof -
  have "(2::real) ^ 1024 \<le> 10 ^ 309" by simp
  then show ?thesis by (simp add: float_limit_def)
qed

lemma truediv_1000_huge: "truediv_1000 (10 ^ 312) = Inl OverflowError"
proof -
  have "real_of_int (10 ^ 312) / 1000 = 10 ^ 309" by simp
  then show ?thesis using float_limit_below by (simp add: truediv_1000_def)
qed

lemma in_float_range:
  "\<bar>n\<bar> \<le> 1000000000 \<Longrightarrow> \<not> float_limit \<le> \<bar>real_of_int n / 1000\<bar>"
  using truediv_1000_small [of n] by (simp add: truediv_1000_def split: if_splits)

subsection \<open>The cost computation\<close>

lemma calculate_cost_fallback:
  "model_costs self mdl = None \<Longrightarrow>
   calculate_cost self mdl i j =
     (if float_limit \<le> \<bar>real_of_int i / 1000\<bar> \<or> float_limit \<le> \<bar>real_of_int j / 1000\<bar>
      then Inl OverflowError
      else Inr (real_of_int i / 1000 * 0.001, real_of_int j / 1000 * 0.002,
                real_of_int i / 1000 * 0.001 + real_of_int j / 1000 * 0.002),
      [(WARNING, Unknown_model mdl)])"
  by (simp add: calculate_cost_def cost_per_1k_def truediv_1000_def Let_def)

lemma calculate_cost_configured:
  "model_costs self mdl = Some prices \<Longrightarrow> prices ''input'' = Some ip \<Longrightarrow>
   prices ''output'' = Some op \<Longrightarrow>
   calculate_cost self mdl i j =
     (if float_limit \<le> \<bar>real_of_int i / 1000\<bar> \<or> float_limit \<le> \<bar>real_of_int j / 1000\<bar>
      then Inl OverflowError
      else Inr (real_of_int i / 1000 * ip, real_of_int j / 1000 * op,
                real_of_int i / 1000 * ip + real_of_int j / 1000 * op), [])"
  by (simp add: calculate_cost_def cost_per_1k_def dict_getitem_def truediv_1000_def Let_def)

lemma calculate_cost_total_is_sum:
  "calculate_cost self mdl i j = (Inr (ic, oc, tc), logs) \<Longrightarrow> tc = ic + oc"
  by (auto simp add: calculate_cost_def Let_def split: prod.splits sum.splits)

lemma add_cost_entry_appends:
  assumes "calculate_cost self mdl i j = (Inr (ic, oc, tc), logs)"
  shows "costs (fst (snd (add_cost_entry self now mdl uid i j rid))) =
           costs self @ [\<lparr>timestamp = now, model = mdl, user_id = uid, input_tokens = i,
                            output_tokens = j, input_cost = ic, output_cost = oc,
                            total_cost = tc, request_id = rid\<rparr>]"
  using assms
  by (simp add: add_cost_entry_def Let_def split: sum.splits)

lemma init_pro:
  "model_costs (CostTracker_init env) ''vertex-gemini-pro'' =
     Some [''input'' \<mapsto> VERTEX_GEMINI_PRO_INPUT_COST env,
           ''output'' \<mapsto> VERTEX_GEMINI_PRO_OUTPUT_COST env]"
  by (simp add: CostTracker_init_def)

lemma init_flash:
  "model_costs (CostTracker_init env) ''vertex-gemini-flash'' =
     Some [''input'' \<mapsto> VERTEX_GEMINI_FLASH_INPUT_COST env,
           ''output'' \<mapsto> VERTEX_GEMINI_FLASH_OUTPUT_COST env]"
  by (simp add: CostTracker_init_def)

lemma init_other:
  "mdl \<noteq> ''vertex-gemini-pro'' \<Longrightarrow> mdl \<noteq> ''vertex-gemini-flash'' \<Longrightarrow>
   model_costs (CostTracker_init env) mdl = None"
  by (simp add: CostTracker_init_def)

lemma calculate_cost_init_pro:
  "calculate_cost (CostTracker_init env) ''vertex-gemini-pro'' i j =
     (if float_limit \<le> \<bar>real_of_int i / 1000\<bar> \<or> float_limit \<le> \<bar>real_of_int j / 1000\<bar>
      then Inl OverflowError
      else Inr (real_of_int i / 1000 * VERTEX_GEMINI_PRO_INPUT_COST env,
                real_of_int j / 1000 * VERTEX_GEMINI_PRO_OUTPUT_COST env,
                real_of_int i / 1000 * VERTEX_GEMINI_PRO_INPUT_COST env
                  + real_of_int j / 1000 * VERTEX_GEMINI_PRO_OUTPUT_COST env), [])"
  by (rule calculate_cost_configured [OF init_pro]) simp_all

lemma calculate_cost_init_flash:
  "calculate_cost (CostTracker_init env) ''vertex-gemini-flash'' i j =
     (if float_limit \<le> \<bar>real_of_int i / 1000\<bar> \<or> float_limit \<le> \<bar>real_of_int j / 1000\<bar>
      then Inl OverflowError
      else Inr (real_of_int i / 1000 * VERTEX_GEMINI_FLASH_INPUT_COST env,
                real_of_int j / 1000 * VERTEX_GEMINI_FLASH_OUTPUT_COST env,
                real_of_int i / 1000 * VERTEX_GEMINI_FLASH_INPUT_COST env
                  + real_of_int j / 1000 * VERTEX_GEMINI_FLASH_OUTPUT_COST env), [])"
  by (rule calculate_cost_configured [OF init_flash]) simp_all

lemma example_now_Ymd: "strftime_Ymd example_now = ''2024-01-15''"
  by (simp add: strftime_Ymd_def example_now_def pad4_def pad2_def digit_def)

lemma example_now_YWU: "strftime_YWU example_now = ''2024-W02''"
  by (simp add: strftime_YWU_def example_now_def pad4_def pad2_def digit_def week_U_def
      toordinal_def days_before_year_def days_before_month_def is_leap_def)

lemma example_now_Ym: "strftime_Ym example_now = ''2024-01''"
  by (simp add: strftime_Ym_def example_now_def pad4_def pad2_def digit_def)

text \<open>
  Claim C8 says that the cost computation returns the three costs for all non-negative
  token counts. Line 89 divides the count by 1000 as a float: at \<open>10 ^ 312\<close> input
  tokens the quotient is no finite double and the call raises \<^verbatim>\<open>OverflowError\<close>.
\<close>

theorem calculate_cost_overflow_counterexample:
  "(0::int) \<le> 10 ^ 312
   \<and> calculate_cost (CostTracker_init default_env) ''vertex-gemini-pro'' (10 ^ 312) 0
       = (Inl OverflowError, [])"
proof -
  have "truediv_1000 (10 ^ 312) = Inl OverflowError" by (rule truediv_1000_huge)
  then have "float_limit \<le> \<bar>real_of_int (10 ^ 312) / 1000\<bar>"
    by (simp add: truediv_1000_def split: if_splits)
  then show ?thesis by (simp add: calculate_cost_init_pro)
qed

text \<open>
  Claim C8, amended. For every model and all non-negative token counts whose
  thousandth is below \<open>float_limit\<close> (counts below \<open>1000 * (2 ^ 1024 - 2 ^ 970)\<close>),
  \<open>calculate_cost\<close> returns the input cost \<open>input_tokens / 1000 * input_price\<close>, the
  output cost \<open>output_tokens / 1000 * output_price\<close> and, as total, exactly the sum of
  the two: with the fallback prices 0.001 and 0.002 for a model that is not in the
  pricing table, and with the configured pair for a model that is. On the tracker
  that \<^verbatim>\<open>__init__\<close> builds the call returns such a triple for every model. The
  entry that \<open>add_cost_entry\<close> then appends to the retained entries stores these
  costs, and its stored total is the sum of its stored input and output costs.
\<close>

theorem calculate_cost_formula:
  assumes "0 \<le> i" and "0 \<le> j"
    and "real_of_int i / 1000 < float_limit" and "real_of_int j / 1000 < float_limit"
  shows "(model_costs self mdl = None \<longrightarrow>
            fst (calculate_cost self mdl i j) =
              Inr (real_of_int i / 1000 * 0.001, real_of_int j / 1000 * 0.002,
                   real_of_int i / 1000 * 0.001 + real_of_int j / 1000 * 0.002))
       \<and> (\<forall>prices ip op.
            model_costs self mdl = Some prices \<and> prices ''input'' = Some ip
              \<and> prices ''output'' = Some op \<longrightarrow>
            fst (calculate_cost self mdl i j) =
              Inr (real_of_int i / 1000 * ip, real_of_int j / 1000 * op,
                   real_of_int i / 1000 * ip + real_of_int j / 1000 * op))
       \<and> (\<exists>in_cost out_cost.
            fst (calculate_cost (CostTracker_init env) mdl i j) =
              Inr (in_cost, out_cost, in_cost + out_cost))
       \<and> (\<forall>in_cost out_cost tot_cost.
            fst (calculate_cost self mdl i j) = Inr (in_cost, out_cost, tot_cost) \<longrightarrow>
            (\<exists>entry.
               costs (fst (snd (add_cost_entry self now mdl uid i j rid))) = costs self @ [entry]
               \<and> input_cost entry = in_cost \<and> output_cost entry = out_cost
               \<and> total_cost entry = input_cost entry + output_cost entry))"
proof -
  have range: "\<not> float_limit \<le> \<bar>real_of_int i / 1000\<bar>" "\<not> float_limit \<le> \<bar>real_of_int j / 1000\<bar>"
    using assms by simp_all
  have init: "\<exists>in_cost out_cost.
          fst (calculate_cost (CostTracker_init env) mdl i j) = Inr (in_cost, out_cost, in_cost + out_cost)"
  proof -
    consider (pro) "mdl = ''vertex-gemini-pro''" | (flash) "mdl = ''vertex-gemini-flash''"
      | (other) "mdl \<noteq> ''vertex-gemini-pro''" "mdl \<noteq> ''vertex-gemini-flash''" by blast
    then show ?thesis
    proof cases
      case pro
      have "fst (calculate_cost (CostTracker_init env) ''vertex-gemini-pro'' i j) =
              Inr (real_of_int i / 1000 * VERTEX_GEMINI_PRO_INPUT_COST env,
                   real_of_int j / 1000 * VERTEX_GEMINI_PRO_OUTPUT_COST env,
                   real_of_int i / 1000 * VERTEX_GEMINI_PRO_INPUT_COST env
                     + real_of_int j / 1000 * VERTEX_GEMINI_PRO_OUTPUT_COST env)"
        using range by (simp only: calculate_cost_init_pro) simp
      with pro show ?thesis by blast
    next
      case flash
      have "fst (calculate_cost (CostTracker_init env) ''vertex-gemini-flash'' i j) =
              Inr (real_of_int i / 1000 * VERTEX_GEMINI_FLASH_INPUT_COST env,
                   real_of_int j / 1000 * VERTEX_GEMINI_FLASH_OUTPUT_COST env,
                   real_of_int i / 1000 * VERTEX_GEMINI_FLASH_INPUT_COST env
                     + real_of_int j / 1000 * VERTEX_GEMINI_FLASH_OUTPUT_COST env)"
        using range by (simp only: calculate_cost_init_flash) simp
      with flash show ?thesis by blast
    next
      case other
      have "fst (calculate_cost (CostTracker_init env) mdl i j) =
              Inr (real_of_int i / 1000 * 0.001, real_of_int j / 1000 * 0.002,
                   real_of_int i / 1000 * 0.001 + real_of_int j / 1000 * 0.002)"
        using range by (simp only: calculate_cost_fallback [OF init_other [OF other]]) simp
      then show ?thesis by blast
    qed
  qed
  have stored: "\<exists>entry.
       costs (fst (snd (add_cost_entry self now mdl uid i j rid))) = costs self @ [entry]
       \<and> input_cost entry = in_cost \<and> output_cost entry = out_cost
       \<and> total_cost entry = input_cost entry + output_cost entry"
    if "fst (calculate_cost self mdl i j) = Inr (in_cost, out_cost, tot_cost)"
    for in_cost out_cost tot_cost
  proof -
    from that have c: "calculate_cost self mdl i j
        = (Inr (in_cost, out_cost, tot_cost), snd (calculate_cost self mdl i j))"
      by (simp add: prod_eq_iff)
    have "tot_cost = in_cost + out_cost" by (rule calculate_cost_total_is_sum [OF c])
    then show ?thesis by (simp add: add_cost_entry_appends [OF c])
  qed
  show ?thesis
    using range init stored
    by (simp add: calculate_cost_fallback calculate_cost_configured)
qed

theorem calculate_cost_formula_witness:
  "fst (calculate_cost (CostTracker_init default_env) ''vertex-gemini-pro'' 1000 2000)
     = Inr (0.000125, 0.00075, 0.000875)
   \<and> fst (calculate_cost (CostTracker_init default_env) ''gpt-4'' 1000 2000)
     = Inr (0.001, 0.004, 0.005)
   \<and> (\<exists>entry.
         costs (fst (snd (add_cost_entry (CostTracker_init default_env) example_now
                            ''vertex-gemini-pro'' ''alice'' 1000 2000 ''req-1''))) = [entry]
         \<and> input_cost entry = 0.000125 \<and> output_cost entry = 0.00075
         \<and> total_cost entry = input_cost entry + output_cost entry)"
proof -
  have nonneg: "(0::int) \<le> 1000" "(0::int) \<le> 2000" by simp_all
  have range: "real_of_int 1000 / 1000 < float_limit" "real_of_int 2000 / 1000 < float_limit"
    using in_float_range [of 1000] in_float_range [of 2000] by simp_all
  note pro = calculate_cost_formula [OF nonneg range,
      of "CostTracker_init default_env" "''vertex-gemini-pro''" default_env example_now
         "''alice''" "''req-1''"]
  note known = pro [THEN conjunct2, THEN conjunct1, rule_format,
      of "[''input'' \<mapsto> 0.000125, ''output'' \<mapsto> 0.000375]" "0.000125" "0.000375"]
  note stored = pro [THEN conjunct2, THEN conjunct2, THEN conjunct2, rule_format,
      of "0.000125" "0.00075" "0.000875"]
  note unknown = calculate_cost_formula [OF nonneg range,
      of "CostTracker_init default_env" "''gpt-4''", THEN conjunct1, rule_format]
  have k: "fst (calculate_cost (CostTracker_init default_env) ''vertex-gemini-pro'' 1000 2000)
     = Inr (0.000125, 0.00075, 0.000875)"
    using known by (simp add: init_pro default_env_def)
  moreover have "fst (calculate_cost (CostTracker_init default_env) ''gpt-4'' 1000 2000)
     = Inr (0.001, 0.004, 0.005)"
    using unknown by (simp add: init_other)
  moreover have "\<exists>entry.
         costs (fst (snd (add_cost_entry (CostTracker_init default_env) example_now
                            ''vertex-gemini-pro'' ''alice'' 1000 2000 ''req-1''))) = [entry]
         \<and> input_cost entry = 0.000125 \<and> output_cost entry = 0.00075
         \<and> total_cost entry = input_cost entry + output_cost entry"
    using stored [OF k] by (simp add: CostTracker_init_def)
  ultimately show ?thesis by simp
qed

text \<open>
  Claim C3 says that a negative token count is rejected with an input-validation
  error. \<open>calculate_cost\<close> has no validation: at \<open>-1000\<close> input tokens it returns a
  negative cost.
\<close>

theorem calculate_cost_negative_tokens_counterexample:
  "calculate_cost (CostTracker_init default_env) ''vertex-gemini-pro'' (- 1000) 0
     = (Inr (- 0.000125, 0, - 0.000125), [])"
  using in_float_range [of "- 1000"] in_float_range [of 0]
  by (simp add: calculate_cost_init_pro default_env_def)

text \<open>
  Claim C3, amended. For every call of \<open>calculate_cost\<close> with a negative input or
  output token count, no validation takes place. The call returns normally the costs
  \<open>input_tokens / 1000 * input_price\<close> and \<open>output_tokens / 1000 * output_price\<close> and
  their sum, computed as for any other count, with the fallback prices and the warning
  for a model that is not in the pricing table. The only counts it does not return
  for are those whose thousandth is no finite double (a magnitude of at least
  \<open>1000 * (2 ^ 1024 - 2 ^ 970)\<close>, of either sign): there the float division raises
  \<^verbatim>\<open>OverflowError\<close>.
\<close>

theorem calculate_cost_no_validation:
  assumes "i < 0 \<or> j < 0"
  shows "(model_costs self mdl = None \<longrightarrow>
            calculate_cost self mdl i j =
              (if float_limit \<le> \<bar>real_of_int i / 1000\<bar> \<or> float_limit \<le> \<bar>real_of_int j / 1000\<bar>
               then Inl OverflowError
               else Inr (real_of_int i / 1000 * 0.001, real_of_int j / 1000 * 0.002,
                         real_of_int i / 1000 * 0.001 + real_of_int j / 1000 * 0.002),
               [(WARNING, Unknown_model mdl)]))
       \<and> (\<forall>prices ip op.
            model_costs self mdl = Some prices \<and> prices ''input'' = Some ip
              \<and> prices ''output'' = Some op \<longrightarrow>
            calculate_cost self mdl i j =
              (if float_limit \<le> \<bar>real_of_int i / 1000\<bar> \<or> float_limit \<le> \<bar>real_of_int j / 1000\<bar>
               then Inl OverflowError
               else Inr (real_of_int i / 1000 * ip, real_of_int j / 1000 * op,
                         real_of_int i / 1000 * ip + real_of_int j / 1000 * op), []))"
  using calculate_cost_fallback [of self mdl i j]
  by (auto simp only: calculate_cost_configured)

theorem calculate_cost_no_validation_witness:
  "calculate_cost (CostTracker_init default_env) ''vertex-gemini-flash'' (- 2000) (- 1000)
     = (Inr (- 0.00015, - 0.0003, - 0.00045), [])
   \<and> calculate_cost (CostTracker_init default_env) ''gpt-4'' 500 (- 1000)
     = (Inr (0.0005, - 0.002, - 0.0015), [(WARNING, Unknown_model ''gpt-4'')])"
proof -
  have neg1: "(- 2000 :: int) < 0 \<or> (- 1000 :: int) < 0" by simp
  have neg2: "(500 :: int) < 0 \<or> (- 1000 :: int) < 0" by simp
  note known = calculate_cost_no_validation [OF neg1,
      of "CostTracker_init default_env" "''vertex-gemini-flash''",
      THEN conjunct2, rule_format,
      of "[''input'' \<mapsto> 0.000075, ''output'' \<mapsto> 0.0003]" "0.000075" "0.0003"]
  note unknown = calculate_cost_no_validation [OF neg2,
      of "CostTracker_init default_env" "''gpt-4''", THEN conjunct1, rule_format]
  have "calculate_cost (CostTracker_init default_env) ''vertex-gemini-flash'' (- 2000) (- 1000)
     = (Inr (- 0.00015, - 0.0003, - 0.00045), [])"
    using known in_float_range [of "- 2000"] in_float_range [of "- 1000"]
    by (simp add: init_flash default_env_def)
  moreover have "calculate_cost (CostTracker_init default_env) ''gpt-4'' 500 (- 1000)
     = (Inr (0.0005, - 0.002, - 0.0015), [(WARNING, Unknown_model ''gpt-4'')])"
    using unknown in_float_range [of 500] in_float_range [of "- 1000"]
    by (simp add: init_other)
  ultimately show ?thesis by simp
qed

subsection \<open>Recording a cost\<close>

text \<open>
  Claim C1 expects \<open>add_cost_entry\<close> to append the entry and to update all five
  aggregates together. On the tracker that \<^verbatim>\<open>__init__\<close> builds, with a model of the
  pricing table, the call appends the entry, updates the daily, weekly, monthly and
  per-user totals and then raises \<^verbatim>\<open>KeyError\<close> on the per-model update: the model's
  dictionary holds the keys \<^verbatim>\<open>'input'\<close> and \<^verbatim>\<open>'output'\<close>, not the day.
\<close>

theorem add_cost_entry_known_model_raises:
  "add_cost_entry (CostTracker_init default_env) example_now
       ''vertex-gemini-pro'' ''alice'' 1000 2000 ''req-1''
   = (Inl (KeyError ''2024-01-15''),
      (CostTracker_init default_env)
        \<lparr>costs := [\<lparr>timestamp = example_now, model = ''vertex-gemini-pro'', user_id = ''alice'',
                    input_tokens = 1000, output_tokens = 2000, input_cost = 0.000125,
                    output_cost = 0.00075, total_cost = 0.000875, request_id = ''req-1''\<rparr>],
         daily_costs := [''2024-01-15'' \<mapsto> 0.000875],
         weekly_costs := [''2024-W02'' \<mapsto> 0.000875],
         monthly_costs := [''2024-01'' \<mapsto> 0.000875],
         user_costs := [''alice'' \<mapsto> [''2024-01-15'' \<mapsto> 0.000875]]\<rparr>,
      [])"
  using in_float_range [of 1000] in_float_range [of 2000]
  by (simp add: add_cost_entry_def calculate_cost_init_pro
      example_now_Ymd example_now_YWU example_now_Ym defaultdict_iadd_def dict_getitem_def
      init_pro Let_def)
    (simp add: CostTracker_init_def default_env_def)

text \<open>
  Claim C2 expects \<open>add_cost_entry\<close> to complete normally for a model that is not in
  the pricing table. The fallback prices are applied and the warning is logged, but
  the per-model update then raises \<^verbatim>\<open>KeyError\<close> for the model: no entry is returned.
\<close>

theorem add_cost_entry_unknown_model_raises:
  "add_cost_entry (CostTracker_init default_env) example_now
       ''gpt-4'' ''alice'' 1000 2000 ''req-2''
   = (Inl (KeyError ''gpt-4''),
      (CostTracker_init default_env)
        \<lparr>costs := [\<lparr>timestamp = example_now, model = ''gpt-4'', user_id = ''alice'',
                    input_tokens = 1000, output_tokens = 2000, input_cost = 0.001,
                    output_cost = 0.004, total_cost = 0.005, request_id = ''req-2''\<rparr>],
         daily_costs := [''2024-01-15'' \<mapsto> 0.005],
         weekly_costs := [''2024-W02'' \<mapsto> 0.005],
         monthly_costs := [''2024-01'' \<mapsto> 0.005],
         user_costs := [''alice'' \<mapsto> [''2024-01-15'' \<mapsto> 0.005]]\<rparr>,
      [(WARNING, Unknown_model ''gpt-4'')])"
  using in_float_range [of 1000] in_float_range [of 2000]
  by (simp add: add_cost_entry_def calculate_cost_fallback init_other
      example_now_Ymd example_now_YWU example_now_Ym defaultdict_iadd_def dict_getitem_def
      Let_def)
    (simp add: CostTracker_init_def)

text \<open>
  On every tracker that has the pricing table of \<^verbatim>\<open>__init__\<close>, whatever the model,
  the user, the token counts and the instant, \<open>add_cost_entry\<close> ends in an exception
  and leaves \<open>model_costs\<close> as it was, so the same holds again at the next call: the
  \<^verbatim>\<open>KeyError\<close> of the per-model update, or before it the \<^verbatim>\<open>OverflowError\<close> of the
  division when a count is out of the float range.
\<close>

lemma strftime_Ymd_length: "length (strftime_Ymd t) = 10"
  by (simp add: strftime_Ymd_def pad4_def pad2_def)

lemma add_cost_entry_always_raises:
  assumes "model_costs self = model_costs (CostTracker_init env)"
  shows "fst (add_cost_entry self now mdl uid i j rid) =
           Inl (if float_limit \<le> \<bar>real_of_int i / 1000\<bar> \<or> float_limit \<le> \<bar>real_of_int j / 1000\<bar>
                then OverflowError
                else KeyError (if mdl = ''vertex-gemini-pro'' \<or> mdl = ''vertex-gemini-flash''
                               then strftime_Ymd now else mdl))
       \<and> model_costs (fst (snd (add_cost_entry self now mdl uid i j rid))) = model_costs self"
proof -
  have k: "strftime_Ymd now \<noteq> ''input''" "strftime_Ymd now \<noteq> ''output''"
    using strftime_Ymd_length [of now] by auto
  consider (pro) "mdl = ''vertex-gemini-pro''" | (flash) "mdl = ''vertex-gemini-flash''"
    | (other) "mdl \<noteq> ''vertex-gemini-pro''" "mdl \<noteq> ''vertex-gemini-flash''" by blast
  then show ?thesis
  proof cases
    case pro
    then show ?thesis using assms k
      by (simp add: add_cost_entry_def calculate_cost_def cost_per_1k_def dict_getitem_def
          truediv_1000_def Let_def init_pro)
  next
    case flash
    then show ?thesis using assms k
      by (simp add: add_cost_entry_def calculate_cost_def cost_per_1k_def dict_getitem_def
          truediv_1000_def Let_def init_flash)
  next
    case other
    then show ?thesis using assms
      by (simp add: add_cost_entry_def calculate_cost_def cost_per_1k_def dict_getitem_def
          truediv_1000_def Let_def init_other)
  qed
qed

subsection \<open>Retention\<close>

lemma length_filter_removed:
  "length xs - length (filter P xs) = length (filter (\<lambda>x. \<not> P x) xs)"
  using sum_length_filter_compl [of P xs] by simp

lemma cutoff_days:
  "(t - r * us_per_day) div us_per_day = t div us_per_day - r"
  by (simp add: us_per_day_def div_mult_self4 diff_conv_add_uminus del: add_uminus_conv_diff)

lemma cleanup_old_entries_unfold:
  assumes "timedelta_days retention_days = Inr delta"
    and "datetime_sub now delta = Inr cutoff"
  shows "cleanup_old_entries self now retention_days =
           (Inr (),
            self\<lparr>costs := filter (\<lambda>entry. total_us (timestamp entry) > cutoff) (costs self)\<rparr>,
            (let removed = length (filter (\<lambda>entry. total_us (timestamp entry) \<le> cutoff) (costs self))
             in if removed > 0 then [(INFO, Cleaned_up removed)] else []))"
proof -
  have "length (costs self) - length (filter (\<lambda>entry. cutoff < total_us (timestamp entry)) (costs self))
        = length (filter (\<lambda>entry. total_us (timestamp entry) \<le> cutoff) (costs self))"
    by (simp add: length_filter_removed not_less)
  then show ?thesis
    using assms by (auto simp add: cleanup_old_entries_def Let_def)
qed

lemma total_us_midnight:
  "total_us (midnight 2023 12 1) = 63837072000000000"
  "total_us (midnight 2024 1 1) = 63839750400000000"
  "total_us (midnight 2024 1 20) = 63841392000000000"
  "total_us (midnight 2024 1 31) = 63842342400000000"
  by (simp_all add: total_us_def midnight_def toordinal_def days_before_year_def
      days_before_month_def is_leap_def)

text \<open>
  Claim C4 says that no entry with a timestamp at or after \<open>now - retention_days\<close> is
  removed and that the number of removed entries is returned. The filter of line 181
  keeps an entry only when its timestamp is strictly greater than the cutoff: an entry
  stamped exactly 30 days before \<open>now\<close> is removed, and the value of the call is
  \<^verbatim>\<open>None\<close>.
\<close>

theorem cleanup_old_entries_boundary_counterexample:
  "total_us (timestamp (example_entry (midnight 2024 1 1)))
      \<ge> total_us (midnight 2024 1 31) - 30 * us_per_day
   \<and> cleanup_old_entries (example_spent_tracker\<lparr>costs := [example_entry (midnight 2024 1 1)]\<rparr>)
        (midnight 2024 1 31) 30
     = (Inr (), example_spent_tracker\<lparr>costs := []\<rparr>, [(INFO, Cleaned_up 1)])"
  by (simp add: cleanup_old_entries_def timedelta_days_def datetime_sub_def Let_def
      total_us_midnight us_per_day_def MAXORDINAL_def example_entry_def)

text \<open>
  Claim C4, amended. For every tracker, every instant \<open>now\<close> and every retention
  window for which \<open>now - retention_days\<close> is a representable datetime,
  \<open>cleanup_old_entries\<close> keeps, in order, exactly the entries whose timestamp is
  strictly later than \<open>now - retention_days\<close> and removes the others (those at or
  before the cutoff), leaves all five aggregates unchanged, returns \<^verbatim>\<open>None\<close>, and
  reports the number of removed entries in one info log record when it is positive.
\<close>

theorem cleanup_old_entries_removes_up_to_cutoff:
  assumes "\<bar>retention_days\<bar> \<le> 999999999"
    and "0 < total_us now div us_per_day - retention_days"
    and "total_us now div us_per_day - retention_days \<le> MAXORDINAL"
  shows "(let cutoff = total_us now - retention_days * us_per_day;
              removed = length (filter (\<lambda>entry. total_us (timestamp entry) \<le> cutoff) (costs self));
              (result, self', logs) = cleanup_old_entries self now retention_days
          in result = Inr ()
           \<and> costs self' = filter (\<lambda>entry. total_us (timestamp entry) > cutoff) (costs self)
           \<and> daily_costs self' = daily_costs self
           \<and> weekly_costs self' = weekly_costs self
           \<and> monthly_costs self' = monthly_costs self
           \<and> user_costs self' = user_costs self
           \<and> model_costs self' = model_costs self
           \<and> logs = (if removed > 0 then [(INFO, Cleaned_up removed)] else []))"
proof -
  have delta: "timedelta_days retention_days = Inr (retention_days * us_per_day)"
    using assms(1) by (simp add: timedelta_days_def)
  have cutoff: "datetime_sub now (retention_days * us_per_day)
                  = Inr (total_us now - retention_days * us_per_day)"
    using assms(2,3) by (simp add: datetime_sub_def Let_def cutoff_days)
  show ?thesis
    by (simp add: cleanup_old_entries_unfold [OF delta cutoff] Let_def)
qed

theorem cleanup_old_entries_removes_up_to_cutoff_witness:
  "cleanup_old_entries example_retained (midnight 2024 1 31) 30
     = (Inr (), example_retained\<lparr>costs := [example_entry (midnight 2024 1 20)]\<rparr>,
        [(INFO, Cleaned_up 2)])
   \<and> daily_costs (fst (snd (cleanup_old_entries example_retained (midnight 2024 1 31) 30)))
        ''2024-01-15'' = Some 9.6"
proof -
  have r: "\<bar>30 :: int\<bar> \<le> 999999999" by simp
  have lo: "0 < total_us (midnight 2024 1 31) div us_per_day - 30"
    by (simp add: total_us_midnight us_per_day_def)
  have hi: "total_us (midnight 2024 1 31) div us_per_day - 30 \<le> MAXORDINAL"
    by (simp add: total_us_midnight us_per_day_def MAXORDINAL_def)
  have cs: "costs example_retained =
      [example_entry (midnight 2023 12 1), example_entry (midnight 2024 1 1),
       example_entry (midnight 2024 1 20)]"
    by (simp add: example_retained_def)
  have ts: "timestamp (example_entry t) = t" for t
    by (simp add: example_entry_def)
  have daily: "daily_costs example_retained ''2024-01-15'' = Some 9.6"
    by (simp add: example_retained_def example_spent_tracker_def)
  obtain result self' logs where
    c: "cleanup_old_entries example_retained (midnight 2024 1 31) 30 = (result, self', logs)"
    by (cases "cleanup_old_entries example_retained (midnight 2024 1 31) 30") auto
  from cleanup_old_entries_removes_up_to_cutoff [OF r lo hi, of example_retained]
  have "result = Inr ()"
    and "costs self' = [example_entry (midnight 2024 1 20)]"
    and "daily_costs self' = daily_costs example_retained"
    and "weekly_costs self' = weekly_costs example_retained"
    and "monthly_costs self' = monthly_costs example_retained"
    and "user_costs self' = user_costs example_retained"
    and "model_costs self' = model_costs example_retained"
    and "logs = [(INFO, Cleaned_up 2)]"
    by (simp_all add: c Let_def cs ts total_us_midnight us_per_day_def)
  moreover have "daily_budget self' = daily_budget example_retained"
    "weekly_budget self' = weekly_budget example_retained"
    "monthly_budget self' = monthly_budget example_retained"
    "warning_threshold self' = warning_threshold example_retained"
    "critical_threshold self' = critical_threshold example_retained"
    "emergency_threshold self' = emergency_threshold example_retained"
    using c by (auto simp add: cleanup_old_entries_def Let_def split: sum.splits)
  ultimately show ?thesis
    using daily by (simp add: c)
qed

subsection \<open>Budget tiers\<close>

text \<open>
  Claim C5. For every tracker whose thresholds are ordered, warning \<open>\<le>\<close> critical
  \<open>\<le>\<close> emergency, the nine flags of \<open>check_budget_limits\<close> are monotone in each
  period: an emergency flag that is true makes the critical flag true, and a critical
  flag that is true makes the warning flag true. The three ceilings are those of the
  data model, amounts that are not negative; the thresholds need not lie between 0
  and 1 and the spend may be any number.
\<close>

theorem check_budget_limits_tier_monotone:
  assumes "warning_threshold self \<le> critical_threshold self"
    and "critical_threshold self \<le> emergency_threshold self"
    and "0 \<le> daily_budget self" and "0 \<le> weekly_budget self" and "0 \<le> monthly_budget self"
  shows "(let status = map_of (fst (check_budget_limits self t_day t_week t_month)) in
          (status ''daily_emergency'' = Some True \<longrightarrow> status ''daily_critical'' = Some True)
        \<and> (status ''daily_critical'' = Some True \<longrightarrow> status ''daily_warning'' = Some True)
        \<and> (status ''weekly_emergency'' = Some True \<longrightarrow> status ''weekly_critical'' = Some True)
        \<and> (status ''weekly_critical'' = Some True \<longrightarrow> status ''weekly_warning'' = Some True)
        \<and> (status ''monthly_emergency'' = Some True \<longrightarrow> status ''monthly_critical'' = Some True)
        \<and> (status ''monthly_critical'' = Some True \<longrightarrow> status ''monthly_warning'' = Some True))"
proof -
  have d: "daily_budget self * warning_threshold self \<le> daily_budget self * critical_threshold self"
      "daily_budget self * critical_threshold self \<le> daily_budget self * emergency_threshold self"
    using assms(1,2,3) by (simp_all add: mult_left_mono)
  have w: "weekly_budget self * warning_threshold self \<le> weekly_budget self * critical_threshold self"
      "weekly_budget self * critical_threshold self \<le> weekly_budget self * emergency_threshold self"
    using assms(1,2,4) by (simp_all add: mult_left_mono)
  have m: "monthly_budget self * warning_threshold self \<le> monthly_budget self * critical_threshold self"
      "monthly_budget self * critical_threshold self \<le> monthly_budget self * emergency_threshold self"
    using assms(1,2,5) by (simp_all add: mult_left_mono)
  show ?thesis
    using d w m by (simp add: check_budget_limits_def Let_def)
qed

theorem check_budget_limits_tier_monotone_witness:
  "map_of (fst (check_budget_limits example_spent_tracker example_now example_now example_now))
      ''daily_emergency'' = Some True
   \<and> map_of (fst (check_budget_limits example_spent_tracker example_now example_now example_now))
      ''daily_critical'' = Some True
   \<and> map_of (fst (check_budget_limits example_spent_tracker example_now example_now example_now))
      ''daily_warning'' = Some True"
proof -
  have emergency:
    "map_of (fst (check_budget_limits example_spent_tracker example_now example_now example_now))
       ''daily_emergency'' = Some True"
    by (simp add: check_budget_limits_def Let_def example_spent_tracker_def CostTracker_init_def
        default_env_def example_now_Ymd dict_get_def)
  have "warning_threshold example_spent_tracker \<le> critical_threshold example_spent_tracker"
    and "critical_threshold example_spent_tracker \<le> emergency_threshold example_spent_tracker"
    and "0 \<le> daily_budget example_spent_tracker"
    and "0 \<le> weekly_budget example_spent_tracker"
    and "0 \<le> monthly_budget example_spent_tracker"
    by (simp_all add: example_spent_tracker_def CostTracker_init_def default_env_def)
  from check_budget_limits_tier_monotone [OF this, of example_now example_now example_now]
    emergency
  show ?thesis by (simp add: Let_def)
qed

subsection \<open>The check before a request\<close>

lemma validate_input_surrogate:
  "list_ex is_surrogate content \<Longrightarrow>
   validate_input self re_search str_lower content = Inl UnicodeEncodeError"
  by (simp add: validate_input_def encoded_len_def)

lemma validate_input_returns:
  "\<not> list_ex is_surrogate content \<Longrightarrow>
   \<exists>content_violations.
     validate_input self re_search str_lower content
       = Inr (content_violations = [], content_violations)"
  by (simp add: validate_input_def encoded_len_def Let_def)

lemma validate_input_valid_iff:
  "validate_input self re_search str_lower content = Inr (content_valid, content_violations)
   \<Longrightarrow> content_valid = (content_violations = [])"
  by (auto simp add: validate_input_def Let_def split: sum.splits)

lemma pre_request_check_enabled:
  assumes "enabled self"
  shows "pre_request_check self t_day t_week t_month re_search str_lower content mdl uid =
     (case validate_input (content_guardrails self) re_search str_lower content of
        Inl e \<Rightarrow> (Inl e, self)
      | Inr (content_valid, content_violations) \<Rightarrow>
          (let tracker = cost_tracker self;
               blocked =
                 (dict_get (daily_costs tracker) (strftime_Ymd t_day) 0
                    \<ge> daily_budget tracker * emergency_threshold tracker
                  \<or> dict_get (monthly_costs tracker) (strftime_Ym t_month) 0
                    \<ge> monthly_budget tracker * emergency_threshold tracker);
               violations = (if blocked then [Budget_limit_exceeded] else []) @ content_violations
           in (Inr (violations = [], violations), self)))"
proof (cases "validate_input (content_guardrails self) re_search str_lower content")
  case (Inl e)
  then show ?thesis
    using assms by (simp add: pre_request_check_def check_budget_limits_def Let_def)
next
  case (Inr r)
  obtain content_valid content_violations where r: "r = (content_valid, content_violations)"
    by (cases r)
  have "content_valid = (content_violations = [])"
    using Inr r by (simp add: validate_input_valid_iff)
  then show ?thesis
    using assms Inr r
    by (simp add: pre_request_check_def check_budget_limits_def Let_def truthy_def)
qed

text \<open>
  Claim C6 says that an enabled manager at the emergency tier refuses every content
  with a budget violation. The content check runs after the budget check and encodes
  the content first: for a content that holds a lone surrogate, which a Python
  \<^verbatim>\<open>str\<close> may, the call raises \<^verbatim>\<open>UnicodeEncodeError\<close> and returns no decision.
\<close>

theorem pre_request_check_surrogate_counterexample:
  "enabled example_manager
   \<and> dict_get (daily_costs (cost_tracker example_manager)) (strftime_Ymd example_now) 0
       \<ge> daily_budget (cost_tracker example_manager)
           * emergency_threshold (cost_tracker example_manager)
   \<and> fst (pre_request_check example_manager example_now example_now example_now no_match
            ascii_lower [0xD800] ''vertex-gemini-pro'' ''alice'')
       = Inl UnicodeEncodeError"
proof -
  have en: "enabled example_manager" by (simp add: example_manager_def)
  have spent: "dict_get (daily_costs (cost_tracker example_manager)) (strftime_Ymd example_now) 0
       \<ge> daily_budget (cost_tracker example_manager)
           * emergency_threshold (cost_tracker example_manager)"
    by (simp add: example_manager_def example_spent_tracker_def CostTracker_init_def
        default_env_def example_now_Ymd dict_get_def)
  have "list_ex is_surrogate [0xD800]" by (simp add: is_surrogate_def)
  then have "fst (pre_request_check example_manager example_now example_now example_now no_match
            ascii_lower [0xD800] ''vertex-gemini-pro'' ''alice'') = Inl UnicodeEncodeError"
    by (simp add: pre_request_check_enabled [OF en] validate_input_surrogate)
  with en spent show ?thesis by simp
qed

text \<open>
  Claim C6, amended. When the manager is enabled and the spend of the current day has
  reached the daily ceiling times the emergency threshold, or the spend of the
  current month the monthly ceiling times the emergency threshold,
  \<open>pre_request_check\<close> refuses the request for every content that UTF-8 can encode
  (every content without a lone surrogate), whatever its validity, the model and the
  user are: the first violation is the budget violation, followed by the violations
  of the content, if any.
\<close>

theorem pre_request_check_blocks_on_emergency:
  assumes "enabled self"
    and "dict_get (daily_costs (cost_tracker self)) (strftime_Ymd t_day) 0
           \<ge> daily_budget (cost_tracker self) * emergency_threshold (cost_tracker self)
         \<or> dict_get (monthly_costs (cost_tracker self)) (strftime_Ym t_month) 0
           \<ge> monthly_budget (cost_tracker self) * emergency_threshold (cost_tracker self)"
    and "\<not> list_ex is_surrogate content"
  shows "\<exists>content_violations.
           validate_input (content_guardrails self) re_search str_lower content
             = Inr (content_violations = [], content_violations)
           \<and> fst (pre_request_check self t_day t_week t_month re_search str_lower content mdl uid)
             = Inr (False, Budget_limit_exceeded # content_violations)"
proof -
  obtain content_violations where
    v: "validate_input (content_guardrails self) re_search str_lower content
          = Inr (content_violations = [], content_violations)"
    using validate_input_returns [OF assms(3)] by blast
  have "fst (pre_request_check self t_day t_week t_month re_search str_lower content mdl uid)
          = Inr (False, Budget_limit_exceeded # content_violations)"
    using assms(2) by (simp add: pre_request_check_enabled [OF assms(1)] v Let_def)
  with v show ?thesis by blast
qed

theorem pre_request_check_blocks_on_emergency_witness:
  "fst (pre_request_check example_manager example_now example_now example_now no_match
          ascii_lower (str_of ''hello world'') ''vertex-gemini-pro'' ''alice'')
     = Inr (False, [Budget_limit_exceeded])"
proof -
  have en: "enabled example_manager" by (simp add: example_manager_def)
  have spent: "dict_get (daily_costs (cost_tracker example_manager)) (strftime_Ymd example_now) 0
           \<ge> daily_budget (cost_tracker example_manager) * emergency_threshold (cost_tracker example_manager)
         \<or> dict_get (monthly_costs (cost_tracker example_manager)) (strftime_Ym example_now) 0
           \<ge> monthly_budget (cost_tracker example_manager) * emergency_threshold (cost_tracker example_manager)"
    by (simp add: example_manager_def example_spent_tracker_def CostTracker_init_def
        default_env_def example_now_Ymd dict_get_def)
  have enc: "\<not> list_ex is_surrogate (str_of ''hello world'')"
    by (simp add: str_of_def is_surrogate_def)
  have content: "validate_input (content_guardrails example_manager) no_match ascii_lower
                   (str_of ''hello world'') = Inr (True, [])"
    by (simp add: validate_input_def encoded_len_def Let_def example_manager_def
        ContentGuardrails_init_def default_guard_env_def utf8_bytes_def split_def isspace_def
        no_match_def toxic_keywords_def ascii_lower_def str_of_def is_surrogate_def)
  from pre_request_check_blocks_on_emergency [OF en spent enc,
      where t_week = example_now and re_search = no_match and str_lower = ascii_lower
        and mdl = "''vertex-gemini-pro''" and uid = "''alice''"] content
  show ?thesis by auto
qed

text \<open>
  Claim C7. \<open>pre_request_check\<close> leaves the manager, and with it the retained entries
  and the five aggregates of its tracker, as they were, whether the call returns or
  raises: the reads of \<open>check_budget_limits\<close> go through \<open>dict_get\<close>, which inserts no
  key.
\<close>

theorem pre_request_check_state_unchanged:
  "snd (pre_request_check self t_day t_week t_month re_search str_lower content mdl uid) = self"
proof (cases "enabled self")
  case True
  then show ?thesis
    by (simp add: pre_request_check_enabled Let_def split: sum.splits prod.splits)
next
  case False
  then show ?thesis by (simp add: pre_request_check_def)
qed

subsection \<open>The token estimate of a single word\<close>

lemma words_from_no_space:
  "\<forall>c\<in>set s. \<not> isspace c \<Longrightarrow> words_from cur s = (if cur @ s = [] then [] else [cur @ s])"
  by (induction s arbitrary: cur) auto

lemma split_no_space:
  "\<forall>c\<in>set s. \<not> isspace c \<Longrightarrow> split s = (if s = [] then [] else [s])"
  by (simp add: split_def words_from_no_space)

text \<open>
  Claim C10 says that a content without whitespace never gets the violation of the
  input token limit. The estimate of one word is 1.3, which exceeds a limit of 1.
\<close>

theorem validate_input_one_word_counterexample:
  "\<not> list_ex isspace (str_of ''a'')
   \<and> validate_input (ContentGuardrails_init (default_guard_env\<lparr>MAX_INPUT_TOKENS := 1\<rparr>))
        no_match ascii_lower (str_of ''a'')
       = Inr (False, [Input_tokens_exceed 1.3 1])"
  by (simp add: validate_input_def encoded_len_def Let_def ContentGuardrails_init_def
        default_guard_env_def utf8_bytes_def split_def isspace_def no_match_def
        toxic_keywords_def ascii_lower_def str_of_def is_surrogate_def)

text \<open>
  Claim C10, amended. For every content without whitespace, however long, and every
  input token limit of at least 2, \<open>validate_input\<close> does not report the violation of
  the input token limit: the estimate is 1.3 for a content that is not empty and 0 for
  the empty one. Of the two checks on length only the one on the size in bytes can
  refuse such a content. (A content that UTF-8 cannot encode gets no violation at all:
  the call raises.)
\<close>

theorem validate_input_single_word:
  assumes "\<forall>c\<in>set content. \<not> isspace c" and "2 \<le> max_input_tokens self"
  shows "(if list_ex is_surrogate content
          then validate_input self re_search str_lower content = Inl UnicodeEncodeError
          else (\<exists>content_violations.
                  validate_input self re_search str_lower content
                    = Inr (content_violations = [], content_violations)
                  \<and> Input_tokens_exceed est bound \<notin> set content_violations))
       \<and> real (length (split content)) * 1.3 = (if content = [] then 0 else 1.3)"
proof -
  have est: "real (length (split content)) * 1.3 = (if content = [] then 0 else 1.3)"
    using assms(1) by (simp add: split_no_space)
  have "real (length (split content)) * 1.3 \<le> real_of_int (max_input_tokens self)"
    using assms(2) est by (cases "content = []") simp_all
  then have low: "\<not> real (length (split content)) * 1.3 > real_of_int (max_input_tokens self)"
    by simp
  have "\<exists>content_violations.
          validate_input self re_search str_lower content
            = Inr (content_violations = [], content_violations)
          \<and> Input_tokens_exceed est bound \<notin> set content_violations"
    if "\<not> list_ex is_surrogate content"
    using that low
    by (simp add: validate_input_def encoded_len_def Let_def split: option.splits)
  with est show ?thesis by (simp add: validate_input_surrogate)
qed

theorem validate_input_single_word_witness:
  "(\<exists>content_violations.
      validate_input (ContentGuardrails_init default_guard_env) no_match ascii_lower
          (str_of ''pneumonoultramicroscopicsilicovolcanoconiosis'')
        = Inr (content_violations = [], content_violations)
      \<and> Input_tokens_exceed 1.3 8192 \<notin> set content_violations)
   \<and> real (length (split (str_of ''pneumonoultramicroscopicsilicovolcanoconiosis''))) * 1.3 = 1.3"
proof -
  have nospace: "\<forall>c\<in>set (str_of ''pneumonoultramicroscopicsilicovolcanoconiosis''). \<not> isspace c"
    by (simp add: str_of_def isspace_def)
  have ceil: "2 \<le> max_input_tokens (ContentGuardrails_init default_guard_env)"
    by (simp add: ContentGuardrails_init_def default_guard_env_def)
  have enc: "\<not> list_ex is_surrogate (str_of ''pneumonoultramicroscopicsilicovolcanoconiosis'')"
    by (simp add: str_of_def is_surrogate_def)
  have ne: "str_of ''pneumonoultramicroscopicsilicovolcanoconiosis'' \<noteq> []"
    by (simp add: str_of_def)
  from validate_input_single_word [OF nospace ceil,
      where re_search = no_match and str_lower = ascii_lower and est = "1.3" and bound = 8192]
    enc ne
  show ?thesis by simp
qed

end
